theory Spec2Isabelle
  imports Main "HOL-Library.Word" "HOL-Library.Sublist"
begin

unbundle bit_operations_syntax

section \<open>Mermaid validator: the \<open>validateMermaid\<close> tool of \<open>src/main.ts\<close>\<close>

text \<open>
  The tool handler spawns \<open>npx @mermaid-js/mermaid-cli\<close>, writes the diagram to the
  child's standard input, collects the child's two output channels through event
  listeners, waits for the child's \<open>close\<close> or \<open>error\<close> event and turns what it saw into
  a list of content blocks.

  The child process is the environment of the handler. It is modelled as the list of
  events the handler's listeners observe, in the order in which Node delivers them.
  A list that holds neither a \<open>close\<close> nor an \<open>error\<close> event is a child that never
  terminates: the promise the handler awaits is then never settled.

  \<open>spawn\<close> is taken to return a child with its three pipes, as Node does for a
  command and arguments that are strings; a program that cannot be started shows as
  the child's \<open>error\<close> event.

  One more event is part of a run although the source has no listener for it: an
  \<open>error\<close> on the child's standard input, which Node emits when the write of the
  diagram fails (\<open>write EPIPE\<close>: the child has gone without reading it all). An
  \<open>error\<close> event without a listener is thrown by Node as an uncaught exception, outside
  the handler's \<open>try\<close> blocks, and ends the host process.
\<close>

subsection \<open>JavaScript strings and buffers\<close>

text \<open>
  A JavaScript string is a sequence of UTF-16 code units, a \<open>Buffer\<close> a sequence of
  bytes. \<open>js_lit\<close> embeds the ASCII literals of the source.
\<close>

type_synonym byte = "8 word"
type_synonym code_unit = "16 word"
type_synonym jsstring = "code_unit list"

definition js_lit :: "string \<Rightarrow> jsstring" where
  "js_lit s = map (\<lambda>c. of_nat (of_char c)) s"

definition LF :: code_unit where
  "LF = 0x0A"

definition REPLACEMENT :: nat where
  "REPLACEMENT = 0xFFFD"

text \<open>A code point as UTF-16: one unit, or a surrogate pair above the basic plane.\<close>

definition utf16_units :: "nat \<Rightarrow> jsstring" where
  "utf16_units cp =
     (if cp < 0x10000 then [of_nat cp]
      else [of_nat (0xD800 + (cp - 0x10000) div 1024),
            of_nat (0xDC00 + (cp - 0x10000) mod 1024)])"

text \<open>
  \<open>data.toString()\<close> on a Buffer decodes UTF-8 and replaces every ill-formed
  subsequence by U+FFFD. The decoder is a state machine: \<open>Idle\<close> between characters,
  \<open>Pending cp n lo hi\<close> inside a multi-byte sequence with code point bits \<open>cp\<close> read
  so far, \<open>n\<close> continuation bytes still missing and the next byte expected within
  \<open>lo..hi\<close>. A byte that cannot continue a sequence ends it with one U+FFFD and is
  then read again as the start of a new sequence; input that ends inside a sequence
  gives one U+FFFD.
\<close>

datatype utf8_state = Idle | Pending nat nat byte byte

definition lead_byte :: "byte \<Rightarrow> nat + utf8_state" where
  "lead_byte b =
     (if b \<le> 0x7F then Inl (unat b)
      else if 0xC2 \<le> b \<and> b \<le> 0xDF then Inr (Pending (unat (b AND 0x1F)) 1 0x80 0xBF)
      else if 0xE0 \<le> b \<and> b \<le> 0xEF then
        Inr (Pending (unat (b AND 0x0F)) 2
               (if b = 0xE0 then 0xA0 else 0x80) (if b = 0xED then 0x9F else 0xBF))
      else if 0xF0 \<le> b \<and> b \<le> 0xF4 then
        Inr (Pending (unat (b AND 0x07)) 3
               (if b = 0xF0 then 0x90 else 0x80) (if b = 0xF4 then 0x8F else 0xBF))
      else Inl REPLACEMENT)"

fun utf8_decode_from :: "utf8_state \<Rightarrow> byte list \<Rightarrow> jsstring" where
  "utf8_decode_from Idle [] = []"
| "utf8_decode_from (Pending cp n lo hi) [] = utf16_units REPLACEMENT"
| "utf8_decode_from Idle (b # bs) =
     (case lead_byte b of
        Inl cp \<Rightarrow> utf16_units cp @ utf8_decode_from Idle bs
      | Inr st \<Rightarrow> utf8_decode_from st bs)"
| "utf8_decode_from (Pending cp n lo hi) (b # bs) =
     (if lo \<le> b \<and> b \<le> hi then
        (if n \<le> 1 then
           utf16_units (cp * 64 + unat (b AND 0x3F)) @ utf8_decode_from Idle bs
         else utf8_decode_from (Pending (cp * 64 + unat (b AND 0x3F)) (n - 1) 0x80 0xBF) bs)
      else
        utf16_units REPLACEMENT @
        (case lead_byte b of
           Inl cp' \<Rightarrow> utf16_units cp' @ utf8_decode_from Idle bs
         | Inr st \<Rightarrow> utf8_decode_from st bs))"

definition buffer_toString :: "byte list \<Rightarrow> jsstring" where
  "buffer_toString data = utf8_decode_from Idle data"

text \<open>
  \<open>Buffer.from(s)\<close> encodes a string as UTF-8: a surrogate pair becomes one four-byte
  sequence, a surrogate without its partner becomes U+FFFD.
\<close>

definition utf8_bytes :: "nat \<Rightarrow> byte list" where
  "utf8_bytes cp =
     (if cp < 0x80 then [of_nat cp]
      else if cp < 0x800 then [of_nat (0xC0 + cp div 64), of_nat (0x80 + cp mod 64)]
      else if cp < 0x10000 then
        [of_nat (0xE0 + cp div 4096), of_nat (0x80 + (cp div 64) mod 64),
         of_nat (0x80 + cp mod 64)]
      else
        [of_nat (0xF0 + cp div 262144), of_nat (0x80 + (cp div 4096) mod 64),
         of_nat (0x80 + (cp div 64) mod 64), of_nat (0x80 + cp mod 64)])"

definition is_high_surrogate :: "code_unit \<Rightarrow> bool" where
  "is_high_surrogate u \<longleftrightarrow> 0xD800 \<le> u \<and> u \<le> 0xDBFF"

definition is_low_surrogate :: "code_unit \<Rightarrow> bool" where
  "is_low_surrogate u \<longleftrightarrow> 0xDC00 \<le> u \<and> u \<le> 0xDFFF"

fun buffer_from :: "jsstring \<Rightarrow> byte list" where
  "buffer_from [] = []"
| "buffer_from [u] =
     (if is_high_surrogate u \<or> is_low_surrogate u then utf8_bytes REPLACEMENT
      else utf8_bytes (unat u))"
| "buffer_from (u # v # vs) =
     (if is_high_surrogate u then
        (if is_low_surrogate v then
           utf8_bytes (0x10000 + (unat u - 0xD800) * 1024 + (unat v - 0xDC00)) @ buffer_from vs
         else utf8_bytes REPLACEMENT @ buffer_from (v # vs))
      else if is_low_surrogate u then utf8_bytes REPLACEMENT @ buffer_from (v # vs)
      else utf8_bytes (unat u) @ buffer_from (v # vs))"

text \<open>\<open>buf.toString("base64")\<close>: the standard alphabet, padded with \<open>=\<close>.\<close>

definition base64_alphabet :: string where
  "base64_alphabet = ''ABCDEFGHIJKLMNOPQRSTUVWXYZabcdefghijklmnopqrstuvwxyz0123456789+/''"

definition base64_digit :: "nat \<Rightarrow> code_unit" where
  "base64_digit n = of_nat (of_char (base64_alphabet ! (n mod 64)))"

definition base64_pad :: code_unit where
  "base64_pad = 0x3D"

fun base64 :: "byte list \<Rightarrow> jsstring" where
  "base64 [] = []"
| "base64 [a] =
     [base64_digit (unat a div 4), base64_digit ((unat a mod 4) * 16), base64_pad, base64_pad]"
| "base64 [a, b] =
     [base64_digit (unat a div 4), base64_digit ((unat a mod 4) * 16 + unat b div 16),
      base64_digit ((unat b mod 16) * 4), base64_pad]"
| "base64 (a # b # c # rest) =
     [base64_digit (unat a div 4), base64_digit ((unat a mod 4) * 16 + unat b div 16),
      base64_digit ((unat b mod 16) * 4 + unat c div 64), base64_digit (unat c mod 64)]
     @ base64 rest"

text \<open>
  A number inside a template literal: exit codes are integers, printed in decimal
  with a leading minus sign when negative (JavaScript prints every digit of an integer
  below \<open>10^21\<close>, far above any exit code).
\<close>

fun decimal :: "nat \<Rightarrow> jsstring" where
  "decimal n =
     (if n < 10 then [of_nat (48 + n)]
      else decimal (n div 10) @ [of_nat (48 + n mod 10)])"

declare decimal.simps [simp del]

definition number_to_string :: "int \<Rightarrow> jsstring" where
  "number_to_string i = (if i < 0 then js_lit ''-'' @ decimal (nat (- i)) else decimal (nat i))"

text \<open>
  \<open>s.split(sep)\<close> for a separator that is not empty: the pieces between the
  occurrences of \<open>sep\<close>, found from left to right without overlap. \<open>acc\<close> holds the
  current piece, reversed.
\<close>

function split_from :: "jsstring \<Rightarrow> jsstring \<Rightarrow> jsstring \<Rightarrow> jsstring list" where
  "split_from sep acc [] = [rev acc]"
| "split_from sep acc (x # xs) =
     (if sep \<noteq> [] \<and> prefix sep (x # xs)
      then rev acc # split_from sep [] (drop (length sep - 1) xs)
      else split_from sep (x # acc) xs)"
  by pat_completeness auto
termination
  by (relation "measure (\<lambda>(sep, acc, s). length s)") auto

definition split :: "jsstring \<Rightarrow> jsstring \<Rightarrow> jsstring list" where
  "split s sep = split_from sep [] s"

text \<open>\<open>pieces.join(sep)\<close>.\<close>

fun join :: "jsstring list \<Rightarrow> jsstring \<Rightarrow> jsstring" where
  "join [] sep = []"
| "join [p] sep = p"
| "join (p # q # ps) sep = p @ sep @ join (q # ps) sep"

subsection \<open>The response\<close>

text \<open>
  The handler returns \<open>{ content: [...] }\<close>; a block is \<open>{ type: "text", text }\<close> or
  \<open>{ type: "image", data, mimeType }\<close>.
\<close>

datatype content_block =
    TextBlock jsstring
  | ImageBlock jsstring jsstring

record response =
  content :: "content_block list"

subsection \<open>The child process as the handler sees it\<close>

text \<open>
  What the handler does to the child before it waits, in program order
  (\<open>spawn\<close>, \<open>stdin.write\<close>, \<open>stdin.end\<close>, the four \<open>on(...)\<close> registrations and the
  \<open>await\<close>), and what the child sends back: \<open>data\<close> on either output channel,
  \<open>close\<close> with the exit code (\<open>null\<close>, here \<open>None\<close>, when a signal ended the child),
  \<open>error\<close> with the error's message, and \<open>error\<close> on \<open>mmdc.stdin\<close> with its message.
\<close>

datatype stdio = Pipe

datatype action =
    Spawn jsstring "jsstring list" "stdio list"
  | StdinWrite jsstring
  | StdinEnd
  | OnStdoutData
  | OnStderrData
  | OnClose
  | OnError
  | AwaitPromise

datatype event =
    StdoutData "byte list"
  | StderrData "byte list"
  | Close "int option"
  | ErrorEvent jsstring
  | StdinError jsstring

text \<open>
  A thrown value: an \<open>Error\<close> with its message, or anything else, kept as what
  \<open>String(value)\<close> gives.
\<close>

datatype thrown =
    Error jsstring
  | NonError jsstring

text \<open>The three variables the listeners write to.\<close>

record capture =
  outputChunks :: "byte list list"
  svgContent :: jsstring
  errorOutput :: jsstring

definition capture_init :: capture where
  "capture_init = \<lparr>outputChunks = [], svgContent = [], errorOutput = []\<rparr>"

subsection \<open>The handler\<close>

definition build_args :: "jsstring \<Rightarrow> jsstring list" where
  "build_args format =
     [js_lit ''@mermaid-js/mermaid-cli'', js_lit ''-i'', js_lit ''-'', js_lit ''-o'',
      js_lit ''-'', js_lit ''-e'', format]
     @ (if format = js_lit ''png'' then [js_lit ''-b'', js_lit ''transparent''] else [])"

definition start_session :: "jsstring \<Rightarrow> jsstring \<Rightarrow> action list" where
  "start_session diagram format =
     [Spawn (js_lit ''npx'') (build_args format) [Pipe, Pipe, Pipe],
      StdinWrite diagram,
      StdinEnd,
      OnStdoutData,
      OnStderrData,
      OnClose,
      OnError,
      AwaitPromise]"

definition on_stdout_data :: "jsstring \<Rightarrow> byte list \<Rightarrow> capture \<Rightarrow> capture" where
  "on_stdout_data format data cap =
     (if format = js_lit ''svg''
      then cap\<lparr>svgContent := svgContent cap @ buffer_toString data\<rparr>
      else cap\<lparr>outputChunks := outputChunks cap @ [data]\<rparr>)"

definition on_stderr_data :: "byte list \<Rightarrow> capture \<Rightarrow> capture" where
  "on_stderr_data data cap = cap\<lparr>errorOutput := errorOutput cap @ buffer_toString data\<rparr>"

definition details_separator :: jsstring where
  "details_separator = [LF, LF] @ js_lit ''Error details:'' @ [LF]"

text \<open>\<open>${errorOutput ? "\n\nError details:\n" + errorOutput : ""}\<close>: a string is truthy when it is not empty.\<close>

definition details_suffix :: "capture \<Rightarrow> jsstring" where
  "details_suffix cap =
     (if errorOutput cap \<noteq> [] then details_separator @ errorOutput cap else [])"

definition code_to_string :: "int option \<Rightarrow> jsstring" where
  "code_to_string code = (case code of None \<Rightarrow> js_lit ''null'' | Some n \<Rightarrow> number_to_string n)"

definition on_close :: "int option \<Rightarrow> capture \<Rightarrow> thrown + unit" where
  "on_close code cap =
     (if code = Some 0 then Inr ()
      else Inl (Error (js_lit ''mermaid-cli process exited with code '' @ code_to_string code
                       @ details_suffix cap)))"

definition on_error :: "jsstring \<Rightarrow> capture \<Rightarrow> thrown + unit" where
  "on_error message cap = Inl (Error (message @ details_suffix cap))"

text \<open>
  The awaited promise. The listeners run in the order of the events; the first
  \<open>close\<close> or \<open>error\<close> settles the promise (resolved: \<open>Inr\<close>, rejected: \<open>Inl\<close>) and
  later events cannot change it. An \<open>error\<close> on the child's standard input that comes
  before finds no listener (\<open>mmdc.stdin.write(diagram); mmdc.stdin.end()\<close> register
  none): it is not caught, and the wait ends with the host process. \<open>None\<close>: the
  promise is never settled.
\<close>

datatype 'a awaited = Uncaught jsstring | Settled 'a

fun await_process :: "jsstring \<Rightarrow> capture \<Rightarrow> event list \<Rightarrow> ((thrown + unit) \<times> capture) awaited option" where
  "await_process format cap [] = None"
| "await_process format cap (StdoutData data # evs) =
     await_process format (on_stdout_data format data cap) evs"
| "await_process format cap (StderrData data # evs) =
     await_process format (on_stderr_data data cap) evs"
| "await_process format cap (Close code # evs) = Some (Settled (on_close code cap, cap))"
| "await_process format cap (ErrorEvent message # evs) = Some (Settled (on_error message cap, cap))"
| "await_process format cap (StdinError message # evs) = Some (Uncaught message)"

text \<open>The statements after the \<open>await\<close>: "If we get here, the diagram is valid".\<close>

definition valid_response :: "jsstring \<Rightarrow> capture \<Rightarrow> response" where
  "valid_response format cap =
     (if format = js_lit ''svg'' then
        \<lparr>content =
           [TextBlock (js_lit ''Mermaid diagram is valid''),
            ImageBlock (base64 (buffer_from (svgContent cap))) (js_lit ''image/svg+xml'')]\<rparr>
      else
        \<lparr>content =
           [TextBlock (js_lit ''Mermaid diagram is valid''),
            ImageBlock (base64 (concat (outputChunks cap))) (js_lit ''image/png'')]\<rparr>)"

text \<open>The body of the inner \<open>try\<close>.\<close>

definition try_render :: "jsstring \<Rightarrow> event list \<Rightarrow> (thrown + response) awaited option" where
  "try_render format evs =
     (case await_process format capture_init evs of
        None \<Rightarrow> None
      | Some (Uncaught message) \<Rightarrow> Some (Uncaught message)
      | Some (Settled (Inl e, cap)) \<Rightarrow> Some (Settled (Inl e))
      | Some (Settled (Inr u, cap)) \<Rightarrow> Some (Settled (Inr (valid_response format cap))))"

text \<open>\<open>validationError instanceof Error ? validationError.message : String(validationError)\<close>.\<close>

fun error_message :: "thrown \<Rightarrow> jsstring" where
  "error_message (Error message) = message"
| "error_message (NonError shown) = shown"

text \<open>
  The inner \<open>catch\<close>. The destructuring \<open>[mainError, ...errorDetails]\<close> takes the first
  piece and the rest; \<open>split\<close> gives at least one piece (lemma \<open>split_not_empty\<close>
  below), so the first equation of \<open>invalid_content\<close> is never used.
\<close>

fun invalid_content :: "jsstring list \<Rightarrow> content_block list" where
  "invalid_content [] = [TextBlock (js_lit ''Mermaid diagram is invalid'')]"
| "invalid_content (mainError # errorDetails) =
     [TextBlock (js_lit ''Mermaid diagram is invalid''), TextBlock mainError]
     @ (if length errorDetails > 0
        then [TextBlock (js_lit ''Detailed error output:'' @ [LF] @ join errorDetails [LF])]
        else [])"

definition catch_validation :: "thrown \<Rightarrow> thrown + response" where
  "catch_validation validationError =
     Inr \<lparr>content = invalid_content (split (error_message validationError) details_separator)\<rparr>"

text \<open>The outer \<open>catch\<close>.\<close>

definition catch_system :: "thrown \<Rightarrow> thrown + response" where
  "catch_system error =
     Inr \<lparr>content = [TextBlock (js_lit ''Error processing Mermaid diagram: '' @ error_message error)]\<rparr>"

definition try_catch :: "(thrown + 'a) \<Rightarrow> (thrown \<Rightarrow> thrown + 'a) \<Rightarrow> thrown + 'a" where
  "try_catch body handler = (case body of Inl e \<Rightarrow> handler e | Inr v \<Rightarrow> Inr v)"

text \<open>
  The handler, \<open>async ({ diagram, format = "png" }) => ...\<close>. Its result is \<open>None\<close> when
  the awaited promise is never settled, \<open>Some (Inr r)\<close> when it returns \<open>r\<close>,
  \<open>Some (Inl (Escaped e))\<close> when \<open>e\<close> is thrown out of it past both \<open>catch\<close> blocks, and
  \<open>Some (Inl (HostEnded m))\<close> when the uncaught error \<open>m\<close> ended the host process while
  the handler was waiting, so that the caller gets no response. What the handler
  returns does not depend on the diagram: that is only written to the child
  (\<open>start_session\<close>).
\<close>

datatype failure = Escaped thrown | HostEnded jsstring

definition default_format :: "jsstring option \<Rightarrow> jsstring" where
  "default_format format = (case format of None \<Rightarrow> js_lit ''png'' | Some f \<Rightarrow> f)"

definition handler :: "jsstring \<Rightarrow> jsstring option \<Rightarrow> event list \<Rightarrow> (failure + response) option" where
  "handler diagram format evs =
     (case try_render (default_format format) evs of
        None \<Rightarrow> None
      | Some (Uncaught message) \<Rightarrow> Some (Inl (HostEnded message))
      | Some (Settled body) \<Rightarrow>
          Some (map_sum Escaped (\<lambda>r. r)
                  (try_catch (try_catch body catch_validation) catch_system)))"

definition handler_actions :: "jsstring \<Rightarrow> jsstring option \<Rightarrow> action list" where
  "handler_actions diagram format = start_session diagram (default_format format)"

subsection \<open>The tool's input schema\<close>

text \<open>
  \<open>{ diagram: z.string(), format: z.enum(["svg", "png"]).optional().default("png") }\<close>.
  An argument is absent, a string, or some other JSON value. \<open>default\<close> replaces an
  absent format by \<open>"png"\<close>, \<open>enum\<close> accepts the two listed strings only, \<open>string\<close>
  accepts any string. The handler runs only on arguments the schema accepts.
\<close>

datatype json = Absent | JString jsstring | JOther

fun parse_diagram :: "json \<Rightarrow> jsstring option" where
  "parse_diagram (JString s) = Some s"
| "parse_diagram _ = None"

fun parse_format :: "json \<Rightarrow> jsstring option" where
  "parse_format Absent = Some (js_lit ''png'')"
| "parse_format (JString s) = (if s = js_lit ''svg'' \<or> s = js_lit ''png'' then Some s else None)"
| "parse_format JOther = None"

text \<open>
  A call of the tool: refused by the schema, or handled, with what the handler did to
  the child and what it gave back.
\<close>

datatype tool_result =
    InvalidArguments
  | Handled "action list" "(failure + response) option"

definition validateMermaid :: "json \<Rightarrow> json \<Rightarrow> event list \<Rightarrow> tool_result" where
  "validateMermaid diagram format evs =
     (case (parse_diagram diagram, parse_format format) of
        (Some d, Some f) \<Rightarrow> Handled (handler_actions d (Some f)) (handler d (Some f) evs)
      | _ \<Rightarrow> InvalidArguments)"

subsection \<open>The three outcome shapes\<close>

datatype outcome = Valid | Invalid | SystemError

fun is_valid :: "content_block list \<Rightarrow> bool" where
  "is_valid [TextBlock t, ImageBlock d m] \<longleftrightarrow> t = js_lit ''Mermaid diagram is valid''"
| "is_valid _ \<longleftrightarrow> False"

fun is_invalid :: "content_block list \<Rightarrow> bool" where
  "is_invalid [TextBlock t, TextBlock mainError] \<longleftrightarrow> t = js_lit ''Mermaid diagram is invalid''"
| "is_invalid [TextBlock t, TextBlock mainError, TextBlock detail] \<longleftrightarrow>
     t = js_lit ''Mermaid diagram is invalid''"
| "is_invalid _ \<longleftrightarrow> False"

fun is_system_error :: "content_block list \<Rightarrow> bool" where
  "is_system_error [TextBlock t] \<longleftrightarrow> prefix (js_lit ''Error processing Mermaid diagram: '') t"
| "is_system_error _ \<longleftrightarrow> False"

definition classify :: "response \<Rightarrow> outcome option" where
  "classify r =
     (if is_valid (content r) then Some Valid
      else if is_invalid (content r) then Some Invalid
      else if is_system_error (content r) then Some SystemError
      else None)"

subsection \<open>Reading a run of the child process\<close>

text \<open>
  What a list of events says about the child: the event that ends the handler's wait
  (the first \<open>close\<close> or \<open>error\<close>, which settle the awaited promise, or an \<open>error\<close> on
  the child's standard input before them, which ends the host process), and the chunks
  each output channel delivered before it.
\<close>

fun settled_by :: "event list \<Rightarrow> event option" where
  "settled_by [] = None"
| "settled_by (StdoutData d # evs) = settled_by evs"
| "settled_by (StderrData d # evs) = settled_by evs"
| "settled_by (Close code # evs) = Some (Close code)"
| "settled_by (ErrorEvent message # evs) = Some (ErrorEvent message)"
| "settled_by (StdinError message # evs) = Some (StdinError message)"

fun settles_promise :: "event \<Rightarrow> bool" where
  "settles_promise (Close code) = True"
| "settles_promise (ErrorEvent message) = True"
| "settles_promise _ = False"

definition promise_settled :: "event list \<Rightarrow> bool" where
  "promise_settled evs = (case settled_by evs of None \<Rightarrow> False | Some ev \<Rightarrow> settles_promise ev)"

fun stdout_chunks :: "event list \<Rightarrow> byte list list" where
  "stdout_chunks (StdoutData d # evs) = d # stdout_chunks evs"
| "stdout_chunks (StderrData d # evs) = stdout_chunks evs"
| "stdout_chunks _ = []"

fun stderr_chunks :: "event list \<Rightarrow> byte list list" where
  "stderr_chunks (StderrData d # evs) = d # stderr_chunks evs"
| "stderr_chunks (StdoutData d # evs) = stderr_chunks evs"
| "stderr_chunks _ = []"

text \<open>The listeners' variables at the moment the promise is settled.\<close>

fun captured :: "jsstring \<Rightarrow> capture \<Rightarrow> event list \<Rightarrow> capture" where
  "captured format cap (StdoutData d # evs) = captured format (on_stdout_data format d cap) evs"
| "captured format cap (StderrData d # evs) = captured format (on_stderr_data d cap) evs"
| "captured format cap _ = cap"

definition stderr_text :: "event list \<Rightarrow> jsstring" where
  "stderr_text evs = concat (map buffer_toString (stderr_chunks evs))"

definition handler_outcome :: "jsstring \<Rightarrow> jsstring option \<Rightarrow> event list \<Rightarrow> (failure + outcome option) option" where
  "handler_outcome diagram format evs =
     map_option (map_sum (\<lambda>e. e) classify) (handler diagram format evs)"

fun is_stdin_write :: "action \<Rightarrow> bool" where
  "is_stdin_write (StdinWrite payload) = True"
| "is_stdin_write _ = False"

text \<open>How many of the three shapes a content list has.\<close>

definition shape_count :: "content_block list \<Rightarrow> nat" where
  "shape_count c =
     (if is_valid c then 1 else 0) + (if is_invalid c then 1 else 0)
     + (if is_system_error c then 1 else 0)"

section \<open>Properties\<close>

subsection \<open>Strings: digits, \<open>split\<close> and the decoder\<close>

lemma digit_not_LF: "d < 10 \<Longrightarrow> (of_nat (48 + d) :: code_unit) \<noteq> LF"
proof
  assume d: "d < 10" and eq: "(of_nat (48 + d) :: code_unit) = LF"
  have "unat (of_nat (48 + d) :: code_unit) = 48 + d"
    using d by (simp add: unat_of_nat del: of_nat_add)
  moreover have "unat LF = 10" by (simp add: LF_def)
  ultimately show False using eq by simp
qed

lemma decimal_no_LF: "LF \<notin> set (decimal n)"
proof (induction n rule: decimal.induct)
  case (1 n)
  show ?case
  proof (cases "n < 10")
    case True
    then show ?thesis using digit_not_LF [of n] by (simp add: decimal.simps [of n] del: of_nat_add)
  next
    case False
    moreover have "n mod 10 < 10" by simp
    ultimately show ?thesis
      using 1 digit_not_LF [of "n mod 10"] by (simp add: decimal.simps [of n] del: of_nat_add)
  qed
qed

lemma decimal_not_empty: "decimal n \<noteq> []"
  by (simp add: decimal.simps [of n])


lemma split_from_plain:
  "sep \<noteq> [] \<Longrightarrow> hd sep \<notin> set a \<Longrightarrow> split_from sep acc a = [rev acc @ a]"
proof (induction a arbitrary: acc)
  case Nil
  then show ?case by simp
next
  case (Cons x a)
  from Cons.prems have "\<not> prefix sep (x # a)"
    by (cases sep) auto
  with Cons show ?case by simp
qed

lemma split_from_first:
  "sep \<noteq> [] \<Longrightarrow> hd sep \<notin> set a \<Longrightarrow>
   split_from sep acc (a @ sep @ rest) = (rev acc @ a) # split_from sep [] rest"
proof (induction a arbitrary: acc)
  case Nil
  then obtain s ss where sep: "sep = s # ss" by (cases sep) auto
  show ?case by (simp add: sep)
next
  case (Cons x a)
  from Cons.prems have "\<not> prefix sep (x # a @ sep @ rest)"
    by (cases sep) auto
  with Cons show ?case by simp
qed

lemma split_from_not_empty: "split_from sep acc s \<noteq> []"
  by (induction sep acc s rule: split_from.induct) auto

text \<open>A buffer that is not empty decodes to a string that is not empty.\<close>

lemma utf16_units_not_empty: "utf16_units cp \<noteq> []"
  by (simp add: utf16_units_def)

lemma lead_byte_Inr: "lead_byte b = Inr st \<Longrightarrow> \<exists>cp n lo hi. st = Pending cp n lo hi"
  by (auto simp: lead_byte_def split: if_splits)

lemma decode_pending_not_empty: "utf8_decode_from (Pending cp n lo hi) bs \<noteq> []"
proof (induction bs arbitrary: cp n lo hi)
  case Nil
  show ?case by (simp add: utf16_units_not_empty)
next
  case (Cons b bs)
  show ?case
    using Cons.IH lead_byte_Inr [of b]
    by (auto simp: utf16_units_not_empty split: sum.splits)
qed

lemma buffer_toString_empty_iff: "buffer_toString data = [] \<longleftrightarrow> data = []"
proof (cases data)
  case Nil
  then show ?thesis by (simp add: buffer_toString_def)
next
  case (Cons b bs)
  then show ?thesis
    using lead_byte_Inr [of b] decode_pending_not_empty
    by (auto simp: buffer_toString_def utf16_units_not_empty split: sum.splits)
qed

text \<open>
  Decoding and encoding again gives back the bytes when they are all ASCII, also when
  they come in several chunks.
\<close>

lemma ascii_lead_byte: "b \<le> 0x7F \<Longrightarrow> lead_byte b = Inl (unat b)"
  by (simp add: lead_byte_def)

lemma ascii_unit: "b \<le> (0x7F :: byte) \<Longrightarrow> utf16_units (unat b) = [ucast b]"
proof -
  assume "b \<le> 0x7F"
  then have "unat b \<le> 127" by (simp add: word_le_nat_alt)
  then show ?thesis by (simp add: utf16_units_def)
qed

lemma ascii_decode:
  "\<forall>b\<in>set data. b \<le> 0x7F \<Longrightarrow> buffer_toString data = map ucast data"
  unfolding buffer_toString_def
  by (induction data) (simp_all add: ascii_lead_byte ascii_unit)

lemma ascii_unit_bytes:
  assumes "b \<le> (0x7F :: byte)"
  shows "\<not> is_high_surrogate (ucast b) \<and> \<not> is_low_surrogate (ucast b)
         \<and> utf8_bytes (unat (ucast b :: code_unit)) = [b]"
proof -
  from assms have b: "unat b \<le> 127" by (simp add: word_le_nat_alt)
  have "unat (ucast b :: code_unit) = take_bit 16 (unat b)"
    by (simp add: unsigned_ucast_eq)
  also have "\<dots> = unat b"
    using b by (simp add: take_bit_nat_eq_self)
  finally have u: "unat (ucast b :: code_unit) = unat b" .
  have "\<not> (0xD800 :: code_unit) \<le> ucast b"
    using b u by (simp add: word_le_nat_alt)
  moreover have "\<not> (0xDC00 :: code_unit) \<le> ucast b"
    using b u by (simp add: word_le_nat_alt)
  moreover have "utf8_bytes (unat b) = [b]"
    using b by (simp add: utf8_bytes_def)
  ultimately show ?thesis
    by (simp add: is_high_surrogate_def is_low_surrogate_def u)
qed

lemma ascii_encode:
  "\<forall>b\<in>set data. b \<le> 0x7F \<Longrightarrow> buffer_from (map ucast data) = data"
proof (induction data rule: induct_list012)
  case 1
  show ?case by simp
next
  case (2 b)
  then show ?case using ascii_unit_bytes [of b] by simp
next
  case (3 b c rest)
  then show ?case using ascii_unit_bytes [of b] by simp
qed

lemma ascii_chunks_roundtrip:
  assumes "\<forall>c\<in>set chunks. \<forall>b\<in>set c. b \<le> 0x7F"
  shows "buffer_from (concat (map buffer_toString chunks)) = concat chunks"
proof -
  have "concat (map buffer_toString chunks) = concat (map (map ucast) chunks)"
    using assms by (induction chunks) (simp_all add: ascii_decode)
  also have "\<dots> = map ucast (concat chunks)"
    by (simp add: map_concat)
  finally show ?thesis
    using assms ascii_encode [of "concat chunks"] by auto
qed

subsection \<open>The awaited promise\<close>

lemma await_process_pending:
  "settled_by evs = None \<Longrightarrow> await_process format cap evs = None"
  by (induction format cap evs rule: await_process.induct) simp_all

lemma await_process_close:
  "settled_by evs = Some (Close code) \<Longrightarrow>
   await_process format cap evs =
     Some (Settled (on_close code (captured format cap evs), captured format cap evs))"
  by (induction format cap evs rule: await_process.induct) simp_all

lemma await_process_error:
  "settled_by evs = Some (ErrorEvent message) \<Longrightarrow>
   await_process format cap evs =
     Some (Settled (on_error message (captured format cap evs), captured format cap evs))"
  by (induction format cap evs rule: await_process.induct) simp_all

lemma await_process_stdin_error:
  "settled_by evs = Some (StdinError message) \<Longrightarrow>
   await_process format cap evs = Some (Uncaught message)"
  by (induction format cap evs rule: await_process.induct) simp_all

lemma settled_by_cases:
  "settled_by evs = None \<or> (\<exists>code. settled_by evs = Some (Close code))
   \<or> (\<exists>message. settled_by evs = Some (ErrorEvent message))
   \<or> (\<exists>message. settled_by evs = Some (StdinError message))"
  by (induction evs rule: settled_by.induct) simp_all

lemma captured_errorOutput:
  "errorOutput (captured format cap evs) = errorOutput cap @ stderr_text evs"
  by (induction format cap evs rule: captured.induct)
     (simp_all add: stderr_text_def on_stdout_data_def on_stderr_data_def)

lemma captured_outputChunks:
  "format \<noteq> js_lit ''svg'' \<Longrightarrow>
   outputChunks (captured format cap evs) = outputChunks cap @ stdout_chunks evs"
  by (induction format cap evs rule: captured.induct)
     (simp_all add: on_stdout_data_def on_stderr_data_def)

lemma captured_svgContent:
  "svgContent (captured (js_lit ''svg'') cap evs) =
     svgContent cap @ concat (map buffer_toString (stdout_chunks evs))"
  by (induction "js_lit ''svg''" cap evs rule: captured.induct)
     (simp_all add: on_stdout_data_def on_stderr_data_def)

lemma stderr_text_empty_iff: "stderr_text evs = [] \<longleftrightarrow> concat (stderr_chunks evs) = []"
  by (simp add: stderr_text_def buffer_toString_empty_iff)

subsection \<open>What the handler returns, by the event that settles the promise\<close>

lemma handler_pending:
  "settled_by evs = None \<Longrightarrow> handler diagram format evs = None"
  by (simp add: handler_def try_render_def await_process_pending)

lemma handler_stdin_error:
  "settled_by evs = Some (StdinError message) \<Longrightarrow>
   handler diagram format evs = Some (Inl (HostEnded message))"
  by (simp add: handler_def try_render_def await_process_stdin_error)

lemma handler_exit_zero:
  "settled_by evs = Some (Close (Some 0)) \<Longrightarrow>
   handler diagram format evs =
     Some (Inr (valid_response (default_format format)
                  (captured (default_format format) capture_init evs)))"
  by (simp add: handler_def try_render_def await_process_close on_close_def try_catch_def)

lemma handler_exit_other:
  "settled_by evs = Some (Close code) \<Longrightarrow> code \<noteq> Some 0 \<Longrightarrow>
   handler diagram format evs =
     Some (Inr \<lparr>content = invalid_content
       (split (js_lit ''mermaid-cli process exited with code '' @ code_to_string code
               @ details_suffix (captured (default_format format) capture_init evs))
          details_separator)\<rparr>)"
  by (simp add: handler_def try_render_def await_process_close on_close_def try_catch_def
      catch_validation_def)

lemma handler_error_event:
  "settled_by evs = Some (ErrorEvent message) \<Longrightarrow>
   handler diagram format evs =
     Some (Inr \<lparr>content = invalid_content
       (split (message @ details_suffix (captured (default_format format) capture_init evs))
          details_separator)\<rparr>)"
  by (simp add: handler_def try_render_def await_process_error on_error_def try_catch_def
      catch_validation_def)

lemma details_suffix_captured:
  "details_suffix (captured format capture_init evs) =
     (if stderr_text evs = [] then [] else details_separator @ stderr_text evs)"
  by (simp add: details_suffix_def captured_errorOutput capture_init_def)

lemma details_separator_hd: "details_separator \<noteq> [] \<and> hd details_separator = LF"
  by (simp add: details_separator_def)

lemma exit_prefix_no_LF: "LF \<notin> set (js_lit ''mermaid-cli process exited with code '')"
  by (simp add: js_lit_def LF_def)

lemma number_to_string_no_LF: "LF \<notin> set (number_to_string n)"
proof -
  have "LF \<notin> set (js_lit ''-'')" by (simp add: js_lit_def LF_def)
  then show ?thesis by (simp add: number_to_string_def decimal_no_LF)
qed

lemma code_to_string_no_LF: "LF \<notin> set (code_to_string code)"
proof (cases code)
  case None
  have "LF \<notin> set (js_lit ''null'')" by (simp add: js_lit_def LF_def)
  with None show ?thesis by (simp add: code_to_string_def)
next
  case (Some n)
  then show ?thesis by (simp add: code_to_string_def number_to_string_no_LF)
qed

lemma split_message:
  assumes "LF \<notin> set main"
  shows "split (main @ (if text = [] then [] else details_separator @ text)) details_separator =
           main # (if text = [] then [] else split text details_separator)"
  using assms details_separator_hd
    split_from_plain [of details_separator main "[]"]
    split_from_first [of details_separator main "[]" "text"]
  by (simp add: split_def)

lemma split_not_empty: "split s sep \<noteq> []"
  by (simp add: split_def split_from_not_empty)

lemma handler_exit_zero_png:
  assumes "settled_by evs = Some (Close (Some 0))" and "default_format format \<noteq> js_lit ''svg''"
  shows "handler diagram format evs =
           Some (Inr \<lparr>content =
             [TextBlock (js_lit ''Mermaid diagram is valid''),
              ImageBlock (base64 (concat (stdout_chunks evs))) (js_lit ''image/png'')]\<rparr>)"
  using assms
  by (simp add: handler_exit_zero valid_response_def captured_outputChunks capture_init_def)

lemma handler_exit_zero_svg:
  assumes "settled_by evs = Some (Close (Some 0))" and "default_format format = js_lit ''svg''"
  shows "handler diagram format evs =
           Some (Inr \<lparr>content =
             [TextBlock (js_lit ''Mermaid diagram is valid''),
              ImageBlock (base64 (buffer_from (concat (map buffer_toString (stdout_chunks evs)))))
                (js_lit ''image/svg+xml'')]\<rparr>)"
  using assms
  by (simp add: handler_exit_zero valid_response_def captured_svgContent capture_init_def)

lemma handler_exit_zero_svg_ascii:
  assumes "settled_by evs = Some (Close (Some 0))" and "default_format format = js_lit ''svg''"
    and "\<forall>c\<in>set (stdout_chunks evs). \<forall>b\<in>set c. b \<le> 0x7F"
  shows "handler diagram format evs =
           Some (Inr \<lparr>content =
             [TextBlock (js_lit ''Mermaid diagram is valid''),
              ImageBlock (base64 (concat (stdout_chunks evs))) (js_lit ''image/svg+xml'')]\<rparr>)"
  using handler_exit_zero_svg [OF assms(1,2), of diagram] ascii_chunks_roundtrip [OF assms(3)]
  by simp

lemma no_output_no_text: "concat chunks = [] \<Longrightarrow> concat (map buffer_toString chunks) = []"
  by (simp add: buffer_toString_empty_iff)

subsection \<open>The shape of what is returned\<close>

lemma invalid_content_shape:
  "pieces \<noteq> [] \<Longrightarrow>
   is_invalid (invalid_content pieces) \<and> \<not> is_valid (invalid_content pieces)
   \<and> \<not> is_system_error (invalid_content pieces)"
  by (cases pieces) simp_all

lemma valid_response_shape:
  "is_valid (content (valid_response format cap))
   \<and> \<not> is_invalid (content (valid_response format cap))
   \<and> \<not> is_system_error (content (valid_response format cap))"
  by (simp add: valid_response_def)

lemma classify_valid_response: "classify (valid_response format cap) = Some Valid"
  using valid_response_shape [of format cap] by (simp add: classify_def)

lemma classify_invalid_content: "classify \<lparr>content = invalid_content (split s sep)\<rparr> = Some Invalid"
  using invalid_content_shape [OF split_not_empty, of s sep] by (simp add: classify_def)

lemma shape_count_valid_response: "shape_count (content (valid_response format cap)) = 1"
  using valid_response_shape [of format cap] by (simp add: shape_count_def)

lemma shape_count_invalid_content: "shape_count (invalid_content (split s sep)) = 1"
  using invalid_content_shape [OF split_not_empty, of s sep] by (simp add: shape_count_def)

lemma handler_settled:
  assumes "settled_by evs = Some ev" and "settles_promise ev"
  shows "\<exists>r. handler diagram format evs = Some (Inr r)
           \<and> classify r = Some (if ev = Close (Some 0) then Valid else Invalid)
           \<and> shape_count (content r) = 1"
proof -
  from assms(2)
  consider (close) code where "ev = Close code" | (error) message where "ev = ErrorEvent message"
    by (cases ev) simp_all
  then show ?thesis
  proof cases
    case close
    show ?thesis
    proof (cases "code = Some 0")
      case True
      with close assms show ?thesis
        by (simp add: handler_exit_zero classify_valid_response shape_count_valid_response)
    next
      case False
      with close assms show ?thesis
        by (simp add: handler_exit_other classify_invalid_content shape_count_invalid_content)
    qed
  next
    case error
    with assms show ?thesis
      by (simp add: handler_error_event classify_invalid_content shape_count_invalid_content)
  qed
qed

lemma not_settling_event:
  "settled_by evs = Some ev \<Longrightarrow> \<not> settles_promise ev \<Longrightarrow> \<exists>message. ev = StdinError message"
  using settled_by_cases [of evs] by auto

lemma parse_format_accepts:
  "parse_format fj = Some format \<Longrightarrow> format = js_lit ''svg'' \<or> format = js_lit ''png''"
  by (cases fj) (auto split: if_splits)

text \<open>
  The single text block of the outer \<open>catch\<close> is never returned: every statement that
  can throw stands inside the inner \<open>try\<close>, and the inner \<open>catch\<close> returns without
  throwing.
\<close>

lemma system_error_never_returned:
  assumes "handler diagram format evs = Some (Inr r)"
  shows "classify r \<noteq> Some SystemError"
proof (cases "settled_by evs")
  case None
  with assms show ?thesis by (simp add: handler_pending)
next
  case (Some ev)
  show ?thesis
  proof (cases "settles_promise ev")
    case True
    from handler_settled [OF Some True, of diagram format] assms show ?thesis by auto
  next
    case False
    then obtain message where "ev = StdinError message"
      using not_settling_event [OF Some] by blast
    with Some assms show ?thesis by (simp add: handler_stdin_error)
  qed
qed

section \<open>Claims\<close>

text \<open>
  C1. When the child terminates with an exit code other than 0, the handler returns
  the Invalid outcome: the first block is the text "Mermaid diagram is invalid", the
  second block is the main error, which is the text
  "mermaid-cli process exited with code" followed by the exit code and so is not
  empty, and there is a third block, with the details, exactly when the diagnostics
  channel delivered at least one byte.
\<close>

theorem nonzero_exit_invalid:
  assumes "settled_by evs = Some (Close (Some n))" and "n \<noteq> 0"
  shows "handler diagram format evs =
           Some (Inr \<lparr>content =
             [TextBlock (js_lit ''Mermaid diagram is invalid''),
              TextBlock (js_lit ''mermaid-cli process exited with code '' @ number_to_string n)]
             @ (if concat (stderr_chunks evs) = [] then []
                else [TextBlock (js_lit ''Detailed error output:'' @ [LF]
                        @ join (split (stderr_text evs) details_separator) [LF])])\<rparr>)
         \<and> js_lit ''mermaid-cli process exited with code '' @ number_to_string n \<noteq> []"
proof -
  let ?main = "js_lit ''mermaid-cli process exited with code '' @ code_to_string (Some n)"
  have main: "LF \<notin> set ?main"
    using exit_prefix_no_LF code_to_string_no_LF [of "Some n"] by simp
  have code: "code_to_string (Some n) = number_to_string n"
    by (simp add: code_to_string_def)
  have pieces: "split (?main @ details_suffix (captured (default_format format) capture_init evs))
                  details_separator =
                ?main # (if stderr_text evs = [] then [] else split (stderr_text evs) details_separator)"
    unfolding details_suffix_captured using split_message [OF main] by simp
  have "handler diagram format evs =
          Some (Inr \<lparr>content = invalid_content
            (?main # (if stderr_text evs = [] then []
                      else split (stderr_text evs) details_separator))\<rparr>)"
    using handler_exit_other [OF assms(1), of diagram format] assms(2) pieces by simp
  moreover have "js_lit ''mermaid-cli process exited with code '' \<noteq> []"
    by (simp add: js_lit_def)
  ultimately show ?thesis
    using split_not_empty [of "stderr_text evs" details_separator]
    by (simp add: code stderr_text_empty_iff)
qed

theorem nonzero_exit_invalid_witness:
  "settled_by [StdoutData [0x3C], StderrData [0x65, 0x72, 0x72], Close (Some 1)] = Some (Close (Some 1))
   \<and> (1::int) \<noteq> 0
   \<and> handler (js_lit ''graph'') None [StdoutData [0x3C], StderrData [0x65, 0x72, 0x72], Close (Some 1)] =
       Some (Inr \<lparr>content =
         [TextBlock (js_lit ''Mermaid diagram is invalid''),
          TextBlock (js_lit ''mermaid-cli process exited with code 1''),
          TextBlock (js_lit ''Detailed error output:'' @ [LF] @ js_lit ''err'')]\<rparr>)"
proof -
  have t: "stderr_text [StdoutData [0x3C], StderrData [0x65, 0x72, 0x72], Close (Some 1)] = js_lit ''err''"
    by (simp add: stderr_text_def buffer_toString_def lead_byte_def utf16_units_def js_lit_def)
  have s: "split (js_lit ''err'') details_separator = [js_lit ''err'']"
    by (simp add: split_def details_separator_def js_lit_def LF_def)
  have n: "number_to_string 1 = js_lit ''1''"
    by (simp add: number_to_string_def decimal.simps js_lit_def)
  have e: "js_lit ''err'' \<noteq> []" by (simp add: js_lit_def)
  have j: "js_lit ''mermaid-cli process exited with code '' @ js_lit ''1'' = js_lit ''mermaid-cli process exited with code 1''"
    by (simp add: js_lit_def)
  show ?thesis
    using nonzero_exit_invalid [of "[StdoutData [0x3C], StderrData [0x65, 0x72, 0x72], Close (Some 1)]" 1
        "js_lit ''graph''" None]
    by (simp add: t s n e j)
qed

text \<open>
  C2. When the child terminates with exit code 0, the handler returns the Valid
  outcome: two blocks, the text "Mermaid diagram is valid" and then an image block
  whose data is the base64 encoding of the bytes the output channel delivered, with the
  MIME type of the format. For \<open>png\<close> the handler keeps the chunks as they are
  (\<open>handler_exit_zero_png\<close>). For \<open>svg\<close> it decodes each chunk to a string on its
  own and encodes the joined string again (\<open>handler_exit_zero_svg\<close>); that gives the
  bytes back when they are ASCII (\<open>handler_exit_zero_svg_ascii\<close>), but a character
  whose bytes arrive in two chunks is lost: the two bytes of U+00E9, \<open>C3 A9\<close>, one per
  chunk, come back as two U+FFFD, and the data is not the base64 encoding of what the
  child wrote.
\<close>

theorem svg_character_split_between_chunks:
  "handler (js_lit ''graph TD; A-->B;'') (Some (js_lit ''svg''))
     [StdoutData [0xC3], StdoutData [0xA9], Close (Some 0)] =
     Some (Inr \<lparr>content =
       [TextBlock (js_lit ''Mermaid diagram is valid''),
        ImageBlock (js_lit ''77+977+9'') (js_lit ''image/svg+xml'')]\<rparr>)
   \<and> base64 (concat (stdout_chunks [StdoutData [0xC3], StdoutData [0xA9], Close (Some 0)])) =
       js_lit ''w6k=''
   \<and> js_lit ''77+977+9'' \<noteq> js_lit ''w6k=''"
proof -
  let ?evs = "[StdoutData [0xC3], StdoutData [0xA9], Close (Some 0)]"
  have decoded: "concat (map buffer_toString (stdout_chunks ?evs)) = [0xFFFD, 0xFFFD]"
    by (simp add: buffer_toString_def lead_byte_def utf16_units_def REPLACEMENT_def)
  have bytes: "buffer_from [0xFFFD, 0xFFFD] = [0xEF, 0xBF, 0xBD, 0xEF, 0xBF, 0xBD]"
    by (simp add: utf8_bytes_def is_high_surrogate_def is_low_surrogate_def REPLACEMENT_def)
  have data: "base64 [0xEF, 0xBF, 0xBD, 0xEF, 0xBF, 0xBD] = js_lit ''77+977+9''"
    by (simp add: base64_digit_def base64_alphabet_def js_lit_def)
  have raw: "base64 (concat (stdout_chunks ?evs)) = js_lit ''w6k=''"
    by (simp add: base64_digit_def base64_alphabet_def base64_pad_def js_lit_def)
  have differ: "js_lit ''77+977+9'' \<noteq> js_lit ''w6k=''"
    by (simp add: js_lit_def)
  have "handler (js_lit ''graph TD; A-->B;'') (Some (js_lit ''svg'')) ?evs =
          Some (Inr \<lparr>content =
            [TextBlock (js_lit ''Mermaid diagram is valid''),
             ImageBlock (base64 (buffer_from (concat (map buffer_toString (stdout_chunks ?evs)))))
               (js_lit ''image/svg+xml'')]\<rparr>)"
    by (rule handler_exit_zero_svg) (simp_all add: default_format_def)
  then show ?thesis
    unfolding decoded bytes data using raw differ by simp
qed

text \<open>
  C3. When the child cannot be started (Node reports it by an \<open>error\<close> event, here
  for a missing \<open>npx\<close>), the handler should return the SystemError outcome, a single
  text block, and must not wait forever. It does return, but with the Invalid
  outcome: the rejection of the awaited promise is caught by the inner \<open>catch\<close>, and the
  error's message becomes the main error under "Mermaid diagram is invalid".
\<close>

theorem spawn_error_reported_as_invalid:
  "handler (js_lit ''graph TD; A-->B;'') (Some (js_lit ''png''))
     [ErrorEvent (js_lit ''spawn npx ENOENT''), Close (Some (- 2))] =
     Some (Inr \<lparr>content =
       [TextBlock (js_lit ''Mermaid diagram is invalid''),
        TextBlock (js_lit ''spawn npx ENOENT'')]\<rparr>)
   \<and> classify \<lparr>content =
       [TextBlock (js_lit ''Mermaid diagram is invalid''),
        TextBlock (js_lit ''spawn npx ENOENT'')]\<rparr> = Some Invalid
   \<and> \<not> is_system_error
       [TextBlock (js_lit ''Mermaid diagram is invalid''),
        TextBlock (js_lit ''spawn npx ENOENT'')]"
proof -
  let ?evs = "[ErrorEvent (js_lit ''spawn npx ENOENT''), Close (Some (- 2))]"
  have LF: "LF \<notin> set (js_lit ''spawn npx ENOENT'')"
    by (simp add: js_lit_def LF_def)
  have pieces: "split (js_lit ''spawn npx ENOENT'') details_separator = [js_lit ''spawn npx ENOENT'']"
    using split_message [OF LF, of "[]"] by simp
  have "handler (js_lit ''graph TD; A-->B;'') (Some (js_lit ''png'')) ?evs =
          Some (Inr \<lparr>content = invalid_content
            (split (js_lit ''spawn npx ENOENT''
                    @ details_suffix (captured (default_format (Some (js_lit ''png''))) capture_init ?evs))
               details_separator)\<rparr>)"
    by (rule handler_error_event) simp
  then show ?thesis
    by (simp add: details_suffix_def capture_init_def pieces classify_def)
qed

text \<open>
  C4. For every input the handler should return normally, with exactly one of the
  three outcome shapes, and let no exception or fault out. It does not for every run
  of the child: while the child sends neither \<open>close\<close> nor \<open>error\<close> the handler waits
  (the source sets no time limit), and an \<open>error\<close> on the child's standard input,
  for which the source has no listener, ends the host process before any response.
\<close>

theorem handler_gives_no_response:
  "handler (js_lit ''graph TD; A-->B;'') None [StdoutData [0x3C]] = None
   \<and> handler (js_lit ''graph TD; A-->B;'') None [StdinError (js_lit ''write EPIPE'')] =
       Some (Inl (HostEnded (js_lit ''write EPIPE'')))"
  by (simp add: handler_pending handler_stdin_error)

text \<open>
  C4, amended. The statements of the handler never throw past its two \<open>catch\<close> blocks;
  and in every run in which the child's \<open>close\<close> or \<open>error\<close> event arrives (with no
  error on its standard input before), the handler returns a response that has exactly
  one of the three outcome shapes.
\<close>

theorem handler_returns_when_promise_settles:
  "(\<forall>e. handler diagram format evs \<noteq> Some (Inl (Escaped e)))
   \<and> (promise_settled evs \<longrightarrow>
        (\<exists>r. handler diagram format evs = Some (Inr r)
           \<and> (classify r = Some Valid \<or> classify r = Some Invalid \<or> classify r = Some SystemError)
           \<and> shape_count (content r) = 1))"
proof (cases "settled_by evs")
  case None
  then show ?thesis by (simp add: handler_pending promise_settled_def)
next
  case (Some ev)
  show ?thesis
  proof (cases "settles_promise ev")
    case True
    from handler_settled [OF Some True, of diagram format] show ?thesis
      by auto
  next
    case False
    then obtain message where "ev = StdinError message"
      using not_settling_event [OF Some] by blast
    with Some show ?thesis
      by (simp add: handler_stdin_error promise_settled_def)
  qed
qed

theorem handler_returns_when_promise_settles_witness:
  "promise_settled [StdoutData [0x89, 0x50], Close (Some 0)]
   \<and> (\<exists>r. handler (js_lit ''graph TD; A-->B;'') None [StdoutData [0x89, 0x50], Close (Some 0)] = Some (Inr r)
          \<and> (classify r = Some Valid \<or> classify r = Some Invalid \<or> classify r = Some SystemError)
          \<and> shape_count (content r) = 1)"
  using handler_returns_when_promise_settles [of "js_lit ''graph TD; A-->B;''" None
      "[StdoutData [0x89, 0x50], Close (Some 0)]"]
  by (simp add: promise_settled_def)

text \<open>
  C5. For every format the schema accepts, the child is started as \<open>npx\<close> with three
  pipes and the arguments \<open>@mermaid-js/mermaid-cli -i - -o - -e format\<close>, followed by
  \<open>-b transparent\<close> exactly when the format is \<open>png\<close>; neither \<open>/dev/stdin\<close> nor
  \<open>/dev/stdout\<close> is among the arguments.
\<close>

theorem engine_invocation:
  assumes "parse_format fj = Some format"
  shows "hd (handler_actions diagram (Some format)) =
           Spawn (js_lit ''npx'') (build_args format) [Pipe, Pipe, Pipe]
         \<and> take 7 (build_args format) =
             [js_lit ''@mermaid-js/mermaid-cli'', js_lit ''-i'', js_lit ''-'', js_lit ''-o'',
              js_lit ''-'', js_lit ''-e'', format]
         \<and> drop 7 (build_args format) =
             (if format = js_lit ''png'' then [js_lit ''-b'', js_lit ''transparent''] else [])
         \<and> (js_lit ''-b'' \<in> set (build_args format) \<longleftrightarrow> format = js_lit ''png'')
         \<and> js_lit ''/dev/stdin'' \<notin> set (build_args format)
         \<and> js_lit ''/dev/stdout'' \<notin> set (build_args format)"
proof -
  have start: "hd (handler_actions diagram (Some format)) =
                 Spawn (js_lit ''npx'') (build_args format) [Pipe, Pipe, Pipe]"
    by (simp add: handler_actions_def start_session_def default_format_def)
  from parse_format_accepts [OF assms] show ?thesis
  proof
    assume svg: "format = js_lit ''svg''"
    have "build_args (js_lit ''svg'') =
            [js_lit ''@mermaid-js/mermaid-cli'', js_lit ''-i'', js_lit ''-'', js_lit ''-o'',
             js_lit ''-'', js_lit ''-e'', js_lit ''svg'']"
      by (simp add: build_args_def js_lit_def)
    then show ?thesis using start svg by (simp add: js_lit_def)
  next
    assume png: "format = js_lit ''png''"
    have "build_args (js_lit ''png'') =
            [js_lit ''@mermaid-js/mermaid-cli'', js_lit ''-i'', js_lit ''-'', js_lit ''-o'',
             js_lit ''-'', js_lit ''-e'', js_lit ''png'', js_lit ''-b'', js_lit ''transparent'']"
      by (simp add: build_args_def)
    then show ?thesis using start png by (simp add: js_lit_def)
  qed
qed

theorem engine_invocation_witness:
  "parse_format Absent = Some (js_lit ''png'')
   \<and> hd (handler_actions (js_lit ''graph TD; A-->B;'') (Some (js_lit ''png''))) =
       Spawn (js_lit ''npx'')
         [js_lit ''@mermaid-js/mermaid-cli'', js_lit ''-i'', js_lit ''-'', js_lit ''-o'',
          js_lit ''-'', js_lit ''-e'', js_lit ''png'', js_lit ''-b'', js_lit ''transparent'']
         [Pipe, Pipe, Pipe]"
proof -
  have "build_args (js_lit ''png'') =
          [js_lit ''@mermaid-js/mermaid-cli'', js_lit ''-i'', js_lit ''-'', js_lit ''-o'',
           js_lit ''-'', js_lit ''-e'', js_lit ''png'', js_lit ''-b'', js_lit ''transparent'']"
    by (simp add: build_args_def)
  then show ?thesis
    using engine_invocation [of Absent "js_lit ''png''" "js_lit ''graph TD; A-->B;''"]
    by simp
qed

text \<open>
  C6. A call without a format is the call with the format \<open>"png"\<close>: the tool, and the
  handler by its own default, do the same to the child and give back the same. The
  schema accepts an absent format, \<open>"svg"\<close> and \<open>"png"\<close>, and nothing else.
\<close>

theorem format_defaults_to_png:
  "validateMermaid diagram Absent evs = validateMermaid diagram (JString (js_lit ''png'')) evs
   \<and> handler d None evs = handler d (Some (js_lit ''png'')) evs
   \<and> handler_actions d None = handler_actions d (Some (js_lit ''png''))
   \<and> (parse_format fj \<noteq> None \<longleftrightarrow>
        fj = Absent \<or> fj = JString (js_lit ''svg'') \<or> fj = JString (js_lit ''png''))"
proof -
  have "parse_format fj \<noteq> None \<longleftrightarrow>
          fj = Absent \<or> fj = JString (js_lit ''svg'') \<or> fj = JString (js_lit ''png'')"
    by (cases fj) auto
  then show ?thesis
    by (simp add: validateMermaid_def handler_def handler_actions_def default_format_def)
qed

text \<open>
  C7. In every call the handler writes the whole diagram to the child's standard
  input and closes it right after, once each, after the spawn and before it awaits
  the child's termination.
\<close>

theorem diagram_written_then_stdin_closed:
  "\<exists>pre post.
     handler_actions diagram format = pre @ [StdinWrite diagram, StdinEnd] @ post
     \<and> pre = [Spawn (js_lit ''npx'') (build_args (default_format format)) [Pipe, Pipe, Pipe]]
     \<and> AwaitPromise \<notin> set pre \<and> AwaitPromise \<in> set post
     \<and> filter is_stdin_write (handler_actions diagram format) = [StdinWrite diagram]
     \<and> filter (\<lambda>a. a = StdinEnd) (handler_actions diagram format) = [StdinEnd]"
  by (simp add: handler_actions_def start_session_def)

text \<open>
  C8. The classification is a function of the event that ends the handler's wait
  alone: two runs that are ended by the same event are classified alike (both still
  waiting, both returned with the same outcome, or both cut short by the same uncaught
  error), however the output is cut into chunks and however the two channels
  interleave. Runs with the same exit code and the same channel contents are a special
  case.
\<close>

theorem same_run_same_classification:
  assumes "settled_by evs1 = settled_by evs2"
  shows "handler_outcome diagram format evs1 = handler_outcome diagram format evs2"
proof (cases "settled_by evs1")
  case None
  with assms show ?thesis by (simp add: handler_outcome_def handler_pending)
next
  case (Some ev)
  with assms have 2: "settled_by evs2 = Some ev" by simp
  show ?thesis
  proof (cases "settles_promise ev")
    case True
    from handler_settled [OF Some True, of diagram format]
      handler_settled [OF 2 True, of diagram format]
    show ?thesis by (auto simp: handler_outcome_def)
  next
    case False
    then obtain message where "ev = StdinError message"
      using not_settling_event [OF Some] by blast
    with Some 2 show ?thesis
      by (simp add: handler_outcome_def handler_stdin_error)
  qed
qed

theorem same_run_same_classification_witness:
  "settled_by [StdoutData [0x3C, 0x73], StderrData [0x77], StdoutData [0x76], Close (Some 0)] =
     settled_by [StderrData [0x77], StdoutData [0x3C], StdoutData [0x73, 0x76], Close (Some 0)]
   \<and> handler_outcome (js_lit ''graph TD; A-->B;'') (Some (js_lit ''svg''))
         [StdoutData [0x3C, 0x73], StderrData [0x77], StdoutData [0x76], Close (Some 0)] =
       handler_outcome (js_lit ''graph TD; A-->B;'') (Some (js_lit ''svg''))
         [StderrData [0x77], StdoutData [0x3C], StdoutData [0x73, 0x76], Close (Some 0)]"
  using same_run_same_classification
    [of "[StdoutData [0x3C, 0x73], StderrData [0x77], StdoutData [0x76], Close (Some 0)]"
        "[StderrData [0x77], StdoutData [0x3C], StdoutData [0x73, 0x76], Close (Some 0)]"
        "js_lit ''graph TD; A-->B;''" "Some (js_lit ''svg'')"]
  by simp

text \<open>
  C10. When the child terminates with exit code 0 and the output channel delivered no
  byte, the handler still returns the Valid outcome, with an image block whose data
  is the empty string: nothing checks the output before it is declared valid.
\<close>

theorem exit_zero_without_output:
  assumes "settled_by evs = Some (Close (Some 0))" and "concat (stdout_chunks evs) = []"
  shows "handler diagram format evs =
           Some (Inr \<lparr>content =
             [TextBlock (js_lit ''Mermaid diagram is valid''),
              ImageBlock [] (if default_format format = js_lit ''svg''
                             then js_lit ''image/svg+xml'' else js_lit ''image/png'')]\<rparr>)"
proof (cases "default_format format = js_lit ''svg''")
  case True
  show ?thesis
    using handler_exit_zero_svg [OF assms(1) True, of diagram] no_output_no_text [OF assms(2)] True
    by simp
next
  case False
  show ?thesis
    using handler_exit_zero_png [OF assms(1) False, of diagram] assms(2) False
    by simp
qed

theorem exit_zero_without_output_witness:
  "settled_by [StderrData [0x77], Close (Some 0)] = Some (Close (Some 0))
   \<and> concat (stdout_chunks [StderrData [0x77], Close (Some 0)]) = []
   \<and> handler (js_lit ''graph TD; A-->B;'') None [StderrData [0x77], Close (Some 0)] =
       Some (Inr \<lparr>content =
         [TextBlock (js_lit ''Mermaid diagram is valid''),
          ImageBlock [] (js_lit ''image/png'')]\<rparr>)
   \<and> handler (js_lit ''graph TD; A-->B;'') (Some (js_lit ''svg'')) [StderrData [0x77], Close (Some 0)] =
       Some (Inr \<lparr>content =
         [TextBlock (js_lit ''Mermaid diagram is valid''),
          ImageBlock [] (js_lit ''image/svg+xml'')]\<rparr>)"
proof -
  have png: "default_format None \<noteq> js_lit ''svg''"
    by (simp add: default_format_def js_lit_def)
  show ?thesis
    using exit_zero_without_output [of "[StderrData [0x77], Close (Some 0)]" "js_lit ''graph TD; A-->B;''" None]
      exit_zero_without_output [of "[StderrData [0x77], Close (Some 0)]" "js_lit ''graph TD; A-->B;''"
        "Some (js_lit ''svg'')"] png
    by (simp add: default_format_def)
qed

end
